theory Spec2Isabelle
  imports Main "HOL-Library.Word" "HOL-Library.Multiset"
begin

section \<open>Values\<close>

text \<open>
  The service is \<^verbatim>\<open>src/Backend/server.js\<close>: four Express handlers over two Mongoose
  collections, a bcrypt primitive and one outgoing HTTPS call. A JavaScript string is a
  sequence of UTF-16 code units; \<open>str\<close> embeds an ASCII literal of the source.
\<close>

type_synonym jstring = "16 word list"

definition str :: "string \<Rightarrow> jstring" where
  "str s = map of_char s"

text \<open>
  The values that \<^verbatim>\<open>resp.json()\<close> can produce and that \<^verbatim>\<open>res.json(...)\<close> is given.
  \<open>JDate\<close> holds milliseconds since the epoch; the numeric value of a \<open>JNum\<close> is never
  inspected by the service. \<^verbatim>\<open>undefined\<close> is \<open>None\<close> of \<open>jsval option\<close>.
\<close>

datatype jsval =
    JNull
  | JBool bool
  | JNum int
  | JStr jstring
  | JDate nat
  | JArr "jsval list"
  | JObj "(jstring \<times> jsval) list"

text \<open>
  \<^verbatim>\<open>req.body\<close> is the object that \<^verbatim>\<open>express.json()\<close> has parsed, a map from field names
  to strings (the interface of the service declares every field a string), or undefined
  (\<open>None\<close>) when nothing has been parsed; destructuring an undefined body throws a
  TypeError. \<^verbatim>\<open>req.query\<close> is always an object. \<^verbatim>\<open>!x\<close> holds of an absent field and of
  the empty string.
\<close>

type_synonym req_body = "string \<rightharpoonup> jstring"

definition falsy :: "jstring option \<Rightarrow> bool" where
  "falsy x = (case x of None \<Rightarrow> True | Some s \<Rightarrow> s = [])"

section \<open>The two collections\<close>

text \<open>
  \<^verbatim>\<open>userSchema\<close> and \<^verbatim>\<open>chatSchema\<close>. The fields of a chat document carry the prefix
  \<open>chat_\<close> here; their names in the schema, and so in every serialised document, are
  \<^verbatim>\<open>username\<close>, \<^verbatim>\<open>user\<close>, \<^verbatim>\<open>bot\<close> and \<^verbatim>\<open>createdAt\<close> (see \<open>Chat_toJSON\<close>). The identifier
  and version key that the store adds to every document are not modelled.
\<close>

record user_doc =
  fullName :: jstring
  username :: jstring
  email :: "jstring option"
  password :: jstring

record chat_doc =
  chat_username :: jstring
  chat_user :: jstring
  chat_bot :: jstring
  chat_createdAt :: nat

text \<open>The body of the outgoing completion request (\<^verbatim>\<open>payload\<close> in \<^verbatim>\<open>getAI21Response\<close>).\<close>

record payload =
  model :: jstring
  messages :: "(jstring \<times> jstring) list"
  max_tokens :: nat

text \<open>
  Everything outside the process that a handler reads or changes: the two collections,
  the outcome of the storage operations still to come (\<open>True\<close>: the operation throws;
  an exhausted schedule means no further fault), and the completion requests sent so far.
\<close>

record world =
  users :: "user_doc list"
  chats :: "chat_doc list"
  faults :: "bool list"
  outbox :: "payload list"

datatype db_error = StorageFault | ValidationError | DuplicateKey jstring

definition storage_call :: "world \<Rightarrow> bool \<times> world" where
  "storage_call w =
     (case faults w of
        [] \<Rightarrow> (False, w)
      | f # fs \<Rightarrow> (f, w\<lparr>faults := fs\<rparr>))"

text \<open>\<^verbatim>\<open>User.findOne({ username })\<close>: the first document with exactly this username.\<close>

definition User_findOne :: "jstring \<Rightarrow> world \<Rightarrow> (db_error + user_doc option) \<times> world" where
  "User_findOne u w =
     (case storage_call w of
        (True, w') \<Rightarrow> (Inl StorageFault, w')
      | (False, w') \<Rightarrow> (Inr (find (\<lambda>d. username d = u) (users w')), w'))"

text \<open>
  The sparse unique index on \<^verbatim>\<open>email\<close>: only documents that have an email take part.
\<close>

definition email_taken :: "user_doc \<Rightarrow> user_doc list \<Rightarrow> bool" where
  "email_taken doc ds =
     (case email doc of
        None \<Rightarrow> False
      | Some e \<Rightarrow> list_ex (\<lambda>d. email d = Some e) ds)"

text \<open>
  \<^verbatim>\<open>newUser.save()\<close>: the \<^verbatim>\<open>required\<close> validators of the schema run first (a required
  string may not be empty), then the insert, which the unique indexes on \<^verbatim>\<open>username\<close>
  and \<^verbatim>\<open>email\<close> can refuse.
\<close>

definition User_save :: "user_doc \<Rightarrow> world \<Rightarrow> (db_error + unit) \<times> world" where
  "User_save doc w =
     (if username doc = [] \<or> password doc = [] then (Inl ValidationError, w)
      else case storage_call w of
        (True, w') \<Rightarrow> (Inl StorageFault, w')
      | (False, w') \<Rightarrow>
          if list_ex (\<lambda>d. username d = username doc) (users w')
            then (Inl (DuplicateKey (str ''username'')), w')
          else if email_taken doc (users w')
            then (Inl (DuplicateKey (str ''email'')), w')
          else (Inr (), w'\<lparr>users := users w' @ [doc]\<rparr>))"

text \<open>\<^verbatim>\<open>chatEntry.save()\<close>: the chat schema has no validator and no index.\<close>

definition Chat_save :: "chat_doc \<Rightarrow> world \<Rightarrow> (db_error + unit) \<times> world" where
  "Chat_save doc w =
     (case storage_call w of
        (True, w') \<Rightarrow> (Inl StorageFault, w')
      | (False, w') \<Rightarrow> (Inr (), w'\<lparr>chats := chats w' @ [doc]\<rparr>))"

text \<open>\<^verbatim>\<open>Chat.find({ username }).sort({ createdAt: 1 })\<close>.\<close>

definition Chat_find_sorted :: "jstring \<Rightarrow> world \<Rightarrow> (db_error + chat_doc list) \<times> world" where
  "Chat_find_sorted u w =
     (case storage_call w of
        (True, w') \<Rightarrow> (Inl StorageFault, w')
      | (False, w') \<Rightarrow>
          (Inr (sort_key chat_createdAt (filter (\<lambda>d. chat_username d = u) (chats w'))), w'))"

text \<open>The schema paths of a chat document, as \<^verbatim>\<open>res.json\<close> serialises them.\<close>

definition Chat_toJSON :: "chat_doc \<Rightarrow> jsval" where
  "Chat_toJSON d =
     JObj [(str ''username'', JStr (chat_username d)),
           (str ''user'', JStr (chat_user d)),
           (str ''bot'', JStr (chat_bot d)),
           (str ''createdAt'', JDate (chat_createdAt d))]"

section \<open>Register and login\<close>

text \<open>A response is the HTTP status and the value handed to \<^verbatim>\<open>res.json\<close>.\<close>

type_synonym response = "nat \<times> jsval"

definition outcome :: "bool \<Rightarrow> string \<Rightarrow> jsval" where
  "outcome ok msg = JObj [(str ''success'', JBool ok), (str ''message'', JStr (str msg))]"

text \<open>
  \<^verbatim>\<open>app.post("/register")\<close>. \<open>hash\<close> is \<^verbatim>\<open>bcrypt.hash(_, 10)\<close> of this call (the library
  draws the salt); every exception of the \<^verbatim>\<open>try\<close> block, the TypeError of destructuring
  an undefined body included, ends in the 500 of the \<^verbatim>\<open>catch\<close>.
\<close>

definition register ::
  "(jstring \<Rightarrow> jstring) \<Rightarrow> req_body option \<Rightarrow> world \<Rightarrow> response \<times> world" where
  "register hash body w =
     (case body of
        None \<Rightarrow> ((500, outcome False ''Registration failed''), w)
      | Some b \<Rightarrow>
         (case (b ''fullName'', b ''username'', b ''password'') of
            (Some f, Some u, Some p) \<Rightarrow>
              if f = [] \<or> u = [] \<or> p = []
                then ((400, outcome False ''All fields required''), w)
              else (case User_findOne u w of
                  (Inl e, w1) \<Rightarrow> ((500, outcome False ''Registration failed''), w1)
                | (Inr (Some existingUser), w1) \<Rightarrow>
                    ((400, outcome False ''User already exists''), w1)
                | (Inr None, w1) \<Rightarrow>
                    let hashedPassword = hash p;
                        newUser = \<lparr>fullName = f, username = u, email = None,
                                   password = hashedPassword\<rparr>
                    in (case User_save newUser w1 of
                          (Inl e, w2) \<Rightarrow> ((500, outcome False ''Registration failed''), w2)
                        | (Inr _, w2) \<Rightarrow>
                            ((200, outcome True ''Registration successful''), w2)))
          | _ \<Rightarrow> ((400, outcome False ''All fields required''), w)))"

text \<open>
  \<^verbatim>\<open>app.post("/login")\<close>. \<open>compare\<close> is \<^verbatim>\<open>bcrypt.compare\<close>, given the supplied password
  and the stored one.
\<close>

definition login ::
  "(jstring \<Rightarrow> jstring \<Rightarrow> bool) \<Rightarrow> req_body option \<Rightarrow> world \<Rightarrow> response \<times> world" where
  "login compare body w =
     (case body of
        None \<Rightarrow> ((500, outcome False ''Login failed''), w)
      | Some b \<Rightarrow>
         (case (b ''username'', b ''password'') of
            (Some u, Some p) \<Rightarrow>
              if u = [] \<or> p = [] then ((400, outcome False ''All fields required''), w)
              else (case User_findOne u w of
                  (Inl e, w1) \<Rightarrow> ((500, outcome False ''Login failed''), w1)
                | (Inr None, w1) \<Rightarrow> ((404, outcome False ''User not found''), w1)
                | (Inr (Some user), w1) \<Rightarrow>
                    if \<not> compare p (password user)
                      then ((401, outcome False ''Incorrect password''), w1)
                    else ((200, JObj [(str ''success'', JBool True),
                                      (str ''message'', JStr (str ''Login successful'')),
                                      (str ''username'', JStr (username user))]), w1))
          | _ \<Rightarrow> ((400, outcome False ''All fields required''), w)))"

section \<open>The completion client\<close>

text \<open>
  What \<^verbatim>\<open>fetch\<close> yields: a rejection (no response at all), or a response with its status
  and its body, \<open>None\<close> when the body is not JSON and \<^verbatim>\<open>resp.json()\<close> rejects. The body
  arrives with the response; the fixed URL and headers of the request are left out.
\<close>

datatype fetch_outcome = Rejected | Responded nat "jsval option"

text \<open>
  The exceptions \<^verbatim>\<open>getAI21Response\<close> can end in: the rejection of \<^verbatim>\<open>fetch\<close>,
  \<^verbatim>\<open>Error(`AI21 error: ${resp.status}`)\<close>, the rejection of \<^verbatim>\<open>resp.json()\<close>, the TypeError
  of calling \<^verbatim>\<open>trim\<close> on a content that has none, and \<^verbatim>\<open>Error("AI21 returned no content")\<close>.
\<close>

datatype ai_error =
    TransportError
  | ProviderError nat
  | InvalidJson
  | NotAFunction
  | EmptyReply

text \<open>
  \<^verbatim>\<open>v?.k\<close> for the three property names the source reads (\<^verbatim>\<open>choices\<close>, \<^verbatim>\<open>message\<close>,
  \<^verbatim>\<open>content\<close>), which no built-in prototype defines: only an object can have them, and
  \<^verbatim>\<open>JSON.parse\<close> keeps the last of duplicate keys. \<^verbatim>\<open>v?.[0]\<close> also reads the first
  element of an array and the first code unit of a string.
\<close>

definition opt_prop :: "string \<Rightarrow> jsval option \<Rightarrow> jsval option" where
  "opt_prop k v =
     (case v of
        None \<Rightarrow> None
      | Some JNull \<Rightarrow> None
      | Some (JObj kvs) \<Rightarrow> map_of (rev kvs) (str k)
      | Some _ \<Rightarrow> None)"

definition opt_first :: "jsval option \<Rightarrow> jsval option" where
  "opt_first v =
     (case v of
        None \<Rightarrow> None
      | Some JNull \<Rightarrow> None
      | Some (JArr xs) \<Rightarrow> (case xs of [] \<Rightarrow> None | x # _ \<Rightarrow> Some x)
      | Some (JStr s) \<Rightarrow> (case s of [] \<Rightarrow> None | c # _ \<Rightarrow> Some (JStr [c]))
      | Some (JObj kvs) \<Rightarrow> map_of (rev kvs) (str ''0'')
      | Some _ \<Rightarrow> None)"

text \<open>\<^verbatim>\<open>json?.choices?.[0]?.message?.content\<close>.\<close>

definition reply_content :: "jsval \<Rightarrow> jsval option" where
  "reply_content json =
     opt_prop ''content'' (opt_prop ''message'' (opt_first (opt_prop ''choices'' (Some json))))"

text \<open>
  \<^verbatim>\<open>String.prototype.trim\<close> removes the WhiteSpace and LineTerminator code points of
  ECMAScript from both ends; all of them are single code units.
\<close>

definition is_space :: "16 word \<Rightarrow> bool" where
  "is_space c \<longleftrightarrow>
     c \<in> {0x9, 0xA, 0xB, 0xC, 0xD, 0x20, 0xA0, 0x1680, 0x2028, 0x2029, 0x202F, 0x205F,
          0x3000, 0xFEFF}
     \<or> (0x2000 \<le> c \<and> c \<le> 0x200A)"

definition trim :: "jstring \<Rightarrow> jstring" where
  "trim s = rev (dropWhile is_space (rev (dropWhile is_space s)))"

text \<open>
  \<^verbatim>\<open>content?.trim()\<close>: undefined for an absent or null content, the trimmed string for a
  string, a TypeError for anything else.
\<close>

definition opt_trim :: "jsval option \<Rightarrow> ai_error + jstring option" where
  "opt_trim c =
     (case c of
        None \<Rightarrow> Inr None
      | Some JNull \<Rightarrow> Inr None
      | Some (JStr s) \<Rightarrow> Inr (Some (trim s))
      | Some _ \<Rightarrow> Inl NotAFunction)"

definition ok :: "nat \<Rightarrow> bool" where
  "ok status \<longleftrightarrow> 200 \<le> status \<and> status \<le> 299"

text \<open>
  The \<^verbatim>\<open>payload\<close> that \<^verbatim>\<open>getAI21Response\<close> builds for a message: the message as the
  single user turn, at most 256 tokens.
\<close>

definition completion_request :: "jstring \<Rightarrow> payload" where
  "completion_request message =
     \<lparr>model = str ''jamba-mini'', messages = [(str ''user'', message)], max_tokens = 256\<rparr>"

text \<open>
  \<^verbatim>\<open>getAI21Response\<close>. \<open>fetch\<close> is the provider as this call meets it; the request
  sent is recorded in \<open>outbox\<close>.
\<close>

definition getAI21Response ::
  "(payload \<Rightarrow> fetch_outcome) \<Rightarrow> jstring \<Rightarrow> world \<Rightarrow> (ai_error + jstring) \<times> world" where
  "getAI21Response fetch message w =
     (let payload = completion_request message;
          w' = w\<lparr>outbox := outbox w @ [payload]\<rparr>
      in case fetch payload of
           Rejected \<Rightarrow> (Inl TransportError, w')
         | Responded status body \<Rightarrow>
             if \<not> ok status then (Inl (ProviderError status), w')
             else (case body of
                 None \<Rightarrow> (Inl InvalidJson, w')
               | Some json \<Rightarrow>
                   (case opt_trim (reply_content json) of
                      Inl e \<Rightarrow> (Inl e, w')
                    | Inr t \<Rightarrow>
                        let reply = (case t of None \<Rightarrow> [] | Some s \<Rightarrow> s)
                        in if reply = [] then (Inl EmptyReply, w') else (Inr reply, w'))))"

section \<open>Chat and history\<close>

text \<open>
  The reply substituted when the completion client throws: the code units U+26A0 and
  U+FE0F followed by the text.
\<close>

definition degraded_reply :: jstring where
  "degraded_reply =
     [0x26A0, 0xFE0F] @ str '' Sorry, I couldn't process that right now. Please try again later.''"

definition chat_error_reply :: jstring where
  "chat_error_reply = [0x26A0, 0xFE0F] @ str '' Error processing your request.''"

definition reply_body :: "jstring \<Rightarrow> jsval" where
  "reply_body r = JObj [(str ''reply'', JStr r)]"

text \<open>
  \<^verbatim>\<open>app.post("/api/chat")\<close>. \<open>now\<close> is \<^verbatim>\<open>Date.now()\<close> when the chat document is built.
  The inner \<^verbatim>\<open>catch\<close> replaces every exception of the client by \<open>degraded_reply\<close>; the
  TypeError of destructuring an undefined body and an exception of \<^verbatim>\<open>chatEntry.save()\<close>
  reach the outer \<^verbatim>\<open>catch\<close>.
\<close>

definition chat ::
  "(payload \<Rightarrow> fetch_outcome) \<Rightarrow> nat \<Rightarrow> req_body option \<Rightarrow> world \<Rightarrow> response \<times> world" where
  "chat fetch now body w =
     (case body of
        None \<Rightarrow> ((500, reply_body chat_error_reply), w)
      | Some b \<Rightarrow>
         (case b ''message'' of
            None \<Rightarrow> ((400, reply_body (str ''Message required'')), w)
          | Some message \<Rightarrow>
              if message = [] then ((400, reply_body (str ''Message required'')), w)
              else (case getAI21Response fetch message w of
                (r, w1) \<Rightarrow>
                  let reply = (case r of Inl aiErr \<Rightarrow> degraded_reply | Inr s \<Rightarrow> s)
                  in (case b ''username'' of
                        None \<Rightarrow> ((200, reply_body reply), w1)
                      | Some u \<Rightarrow>
                          if u = [] then ((200, reply_body reply), w1)
                          else (case Chat_save \<lparr>chat_username = u, chat_user = message,
                                                 chat_bot = reply, chat_createdAt = now\<rparr> w1 of
                              (Inl e, w2) \<Rightarrow> ((500, reply_body chat_error_reply), w2)
                            | (Inr _, w2) \<Rightarrow> ((200, reply_body reply), w2))))))"

text \<open>\<^verbatim>\<open>app.get("/api/history")\<close>, from the field \<^verbatim>\<open>req.query.username\<close>.\<close>

definition history :: "jstring option \<Rightarrow> world \<Rightarrow> response \<times> world" where
  "history username' w =
     (case username' of
        None \<Rightarrow> ((200, JArr []), w)
      | Some u \<Rightarrow>
          if u = [] then ((200, JArr []), w)
          else (case Chat_find_sorted u w of
              (Inl e, w1) \<Rightarrow> ((500, JArr []), w1)
            | (Inr found, w1) \<Rightarrow> ((200, JArr (map Chat_toJSON found)), w1)))"

section \<open>Runs of the service\<close>

text \<open>
  A request together with what the environment does during it, and the service handling
  a sequence of requests one after the other.
\<close>

datatype call =
    Register "jstring \<Rightarrow> jstring" "req_body option"
  | Login "jstring \<Rightarrow> jstring \<Rightarrow> bool" "req_body option"
  | Chat "payload \<Rightarrow> fetch_outcome" nat "req_body option"
  | History "jstring option"

fun serve :: "call \<Rightarrow> world \<Rightarrow> response \<times> world" where
  "serve (Register hash body) w = register hash body w"
| "serve (Login compare body) w = login compare body w"
| "serve (Chat fetch now body) w = chat fetch now body w"
| "serve (History u) w = history u w"

fun run :: "call list \<Rightarrow> world \<Rightarrow> response list \<times> world" where
  "run [] w = ([], w)"
| "run (c # cs) w =
     (case serve c w of (r, w1) \<Rightarrow> (case run cs w1 of (rs, w2) \<Rightarrow> (r # rs, w2)))"

definition empty_store :: "bool list \<Rightarrow> world" where
  "empty_store fs = \<lparr>users = [], chats = [], faults = fs, outbox = []\<rparr>"

section \<open>The hashing primitive\<close>

text \<open>
  Modelled from the spec: \<^verbatim>\<open>bcrypt.hash\<close>, which the repository imports and does not
  contain. The spec calls it a salted one-way hash, under which a password is ``stored
  only as a one-way hash (never plaintext)'': a function from the password to the digest
  (the salt that the library draws is part of the function) that never returns the
  password itself.
\<close>

typedef one_way_hash = "{h :: jstring \<Rightarrow> jstring. \<forall>p. h p \<noteq> p}"
  by (rule exI [of _ "\<lambda>p. 0 # p"]) simp

section \<open>Basic facts\<close>

lemma getAI21Response_world:
  "snd (getAI21Response fetch msg w) = w\<lparr>outbox := outbox w @ [completion_request msg]\<rparr>"
  by (simp add: getAI21Response_def Let_def
      split: fetch_outcome.splits option.splits sum.splits)

lemma storage_call_outbox [simp]:
  "storage_call (w\<lparr>outbox := ob\<rparr>) =
     (fst (storage_call w), (snd (storage_call w))\<lparr>outbox := ob\<rparr>)"
  by (simp add: storage_call_def split: list.splits)

lemma storage_call_users [simp]: "users (snd (storage_call w)) = users w"
  by (simp add: storage_call_def split: list.splits)

lemma storage_call_chats [simp]: "chats (snd (storage_call w)) = chats w"
  by (simp add: storage_call_def split: list.splits)

lemma degraded_reply_nonempty: "degraded_reply \<noteq> []"
  by (simp add: degraded_reply_def)

lemma storage_call_faults [simp]: "faults (snd (storage_call w)) = tl (faults w)"
  by (simp add: storage_call_def split: list.splits)

lemma storage_call_outbox_snd [simp]: "outbox (snd (storage_call w)) = outbox w"
  by (simp add: storage_call_def split: list.splits)

lemma storage_call_fault: "fst (storage_call w) \<longleftrightarrow> faults w \<noteq> [] \<and> hd (faults w)"
  by (simp add: storage_call_def split: list.splits)

lemma User_findOne_eq:
  "User_findOne u w =
     (if fst (storage_call w) then Inl StorageFault
      else Inr (find (\<lambda>d. username d = u) (users w)), snd (storage_call w))"
  by (simp add: User_findOne_def split_beta split: bool.splits)

lemma Chat_save_eq:
  "Chat_save doc w =
     (if fst (storage_call w) then (Inl StorageFault, snd (storage_call w))
      else (Inr (), (snd (storage_call w))\<lparr>chats := chats w @ [doc]\<rparr>))"
  by (simp add: Chat_save_def split_beta split: bool.splits)

lemma Chat_find_sorted_eq:
  "Chat_find_sorted u w =
     (if fst (storage_call w) then Inl StorageFault
      else Inr (sort_key chat_createdAt (filter (\<lambda>d. chat_username d = u) (chats w))),
      snd (storage_call w))"
  by (simp add: Chat_find_sorted_def split_beta split: bool.splits)

lemma User_save_eq:
  "User_save doc w =
     (if username doc = [] \<or> password doc = [] then (Inl ValidationError, w)
      else if fst (storage_call w) then (Inl StorageFault, snd (storage_call w))
      else if list_ex (\<lambda>d. username d = username doc) (users w)
        then (Inl (DuplicateKey (str ''username'')), snd (storage_call w))
      else if email_taken doc (users w)
        then (Inl (DuplicateKey (str ''email'')), snd (storage_call w))
      else (Inr (), (snd (storage_call w))\<lparr>users := users w @ [doc]\<rparr>))"
  by (simp add: User_save_def split_beta split: bool.splits)

text \<open>Only \<open>register\<close> changes the user collection, and only \<open>chat\<close> the chat log.\<close>

lemma chat_users: "users (snd (chat fetch now body w)) = users w"
proof -
  have "users (snd (getAI21Response fetch msg w)) = users w" for msg
    by (simp add: getAI21Response_world)
  then show ?thesis
    by (auto simp: chat_def Chat_save_eq split_beta Let_def getAI21Response_world
        split: option.splits)
qed

lemma login_users: "users (snd (login compare body w)) = users w"
  by (auto simp: login_def User_findOne_eq split: option.splits)

lemma history_users: "users (snd (history u w)) = users w"
  by (auto simp: history_def Chat_find_sorted_eq split: option.splits)

lemma register_users:
  "users (snd (register hash body w)) = users w
   \<or> (\<exists>d. users (snd (register hash body w)) = users w @ [d] \<and> email d = None
           \<and> \<not> list_ex (\<lambda>x. username x = username d) (users w))"
  by (auto simp: register_def User_findOne_eq User_save_eq Let_def split: option.splits)

lemma serve_users:
  "users (snd (serve c w)) = users w
   \<or> (\<exists>d. users (snd (serve c w)) = users w @ [d] \<and> email d = None
           \<and> \<not> list_ex (\<lambda>x. username x = username d) (users w))"
  by (cases c) (simp_all add: register_users login_users chat_users history_users)

lemma register_chats: "chats (snd (register hash body w)) = chats w"
  by (auto simp: register_def User_findOne_eq User_save_eq Let_def split: option.splits)

lemma login_chats: "chats (snd (login compare body w)) = chats w"
  by (auto simp: login_def User_findOne_eq split: option.splits)

lemma history_chats: "chats (snd (history u w)) = chats w"
  by (auto simp: history_def Chat_find_sorted_eq split: option.splits)

section \<open>Chat\<close>




text \<open>
  C1, as stated, fails when the provider and the store fail in the same request: the
  client's exception is replaced by the degraded reply, but the exception of
  \<^verbatim>\<open>chatEntry.save()\<close> then reaches the outer \<^verbatim>\<open>catch\<close> and the response is the 500.
\<close>

theorem chat_degrades_counterexample:
  "str ''hi'' \<noteq> []
   \<and> fst (getAI21Response (\<lambda>_. Rejected) (str ''hi'') (empty_store [True]))
       = Inl TransportError
   \<and> fst (chat (\<lambda>_. Rejected) 7 (Some [''username'' \<mapsto> str ''ab'', ''message'' \<mapsto> str ''hi''])
            (empty_store [True]))
       = (500, reply_body chat_error_reply)
   \<and> fst (chat (\<lambda>_. Rejected) 7 (Some [''username'' \<mapsto> str ''ab'', ''message'' \<mapsto> str ''hi''])
            (empty_store [True]))
       \<noteq> (200, reply_body degraded_reply)"
  by (simp add: chat_def getAI21Response_def Chat_save_def storage_call_def empty_store_def
      str_def)

text \<open>
  C1, amended. For a chat request with a non-empty message, whenever the completion
  client fails (with any exception) and either no username is supplied or the storage
  operation that appends the log entry does not fail, the response is the 200 whose reply
  is the fixed degraded-service string, and that string is not empty. Whatever the
  provider does, the status is 500 exactly when a username is supplied and the append
  fails: a provider failure is never the cause of a 500.
\<close>

theorem chat_degrades:
  assumes "msg \<noteq> []"
    and "fst (getAI21Response fetch msg w) = Inl e"
    and "falsy (b ''username'') \<or> \<not> fst (storage_call w)"
  shows "fst (chat fetch now (Some (b(''message'' \<mapsto> msg))) w)
           = (200, reply_body degraded_reply)
         \<and> degraded_reply \<noteq> []
         \<and> (fst (fst (chat fetch' now (Some (b'(''message'' \<mapsto> msg))) w')) = 500
              \<longleftrightarrow> \<not> falsy (b' ''username'') \<and> fst (storage_call w'))"
proof -
  have status: "fst (fst (chat fetch' now (Some (b'(''message'' \<mapsto> msg))) w')) = 500
                  \<longleftrightarrow> \<not> falsy (b' ''username'') \<and> fst (storage_call w')"
    using assms(1)
    by (auto simp: chat_def Chat_save_eq split_beta Let_def getAI21Response_world falsy_def
        split: option.splits)
  obtain r w1 where g: "getAI21Response fetch msg w = (r, w1)"
    by (cases "getAI21Response fetch msg w")
  with assms(2) have r: "r = Inl e" by simp
  from g have w1: "w1 = w\<lparr>outbox := outbox w @ [completion_request msg]\<rparr>"
    using getAI21Response_world [of fetch msg w] by simp
  have "fst (chat fetch now (Some (b(''message'' \<mapsto> msg))) w)
          = (200, reply_body degraded_reply)"
  proof (cases "falsy (b ''username'')")
    case True
    then show ?thesis using assms(1) g r
      by (auto simp: chat_def falsy_def split: option.splits)
  next
    case False
    with assms(3) have nf: "\<not> fst (storage_call w)" by simp
    from False obtain name where u: "b ''username'' = Some name" "name \<noteq> []"
      by (auto simp: falsy_def split: option.splits)
    show ?thesis using assms(1) g r u nf
      by (simp add: chat_def w1 Chat_save_eq)
  qed
  with status degraded_reply_nonempty show ?thesis by simp
qed

theorem chat_degrades_witness:
  "str ''hi'' \<noteq> []
   \<and> fst (getAI21Response (\<lambda>_. Responded 503 None) (str ''hi'') (empty_store []))
       = Inl (ProviderError 503)
   \<and> \<not> fst (storage_call (empty_store []))
   \<and> fst (chat (\<lambda>_. Responded 503 None) 7
            (Some [''username'' \<mapsto> str ''ab'', ''message'' \<mapsto> str ''hi'']) (empty_store []))
       = (200, reply_body degraded_reply)
   \<and> fst (fst (chat (\<lambda>_. Rejected) 7
                 (Some [''username'' \<mapsto> str ''ab'', ''message'' \<mapsto> str ''hi''])
                 (empty_store [True]))) = 500
   \<and> fst (fst (chat (\<lambda>_. Rejected) 7 (Some [''message'' \<mapsto> str ''hi''])
                 (empty_store [True]))) \<noteq> 500"
proof -
  have a: "str ''hi'' \<noteq> []" by (simp add: str_def)
  have b: "fst (getAI21Response (\<lambda>_. Responded 503 None) (str ''hi'') (empty_store []))
            = Inl (ProviderError 503)"
    by (simp add: getAI21Response_def ok_def)
  have c: "\<not> fst (storage_call (empty_store []))"
    by (simp add: storage_call_def empty_store_def)
  then have d: "falsy ([''username'' \<mapsto> str ''ab''] ''username'')
                \<or> \<not> fst (storage_call (empty_store []))" ..
  show ?thesis
    using a b c
      chat_degrades [where b = "[''username'' \<mapsto> str ''ab'']" and now = 7
        and fetch' = "\<lambda>_. Rejected" and b' = "[''username'' \<mapsto> str ''ab'']"
        and w' = "empty_store [True]", OF a b d]
      chat_degrades [where b = "[''username'' \<mapsto> str ''ab'']" and now = 7
        and fetch' = "\<lambda>_. Rejected" and b' = Map.empty
        and w' = "empty_store [True]", OF a b d]
    by (simp add: falsy_def storage_call_def empty_store_def str_def)
qed

text \<open>
  C2. For a chat request with a non-empty message and a non-empty username, the entry
  built from the username, the original message, the reply produced (the client's, or the
  degraded one when the client failed) and the current time is appended to the log and
  the response is the 200 with that reply; when the append fails, the response is the 500
  and the log is unchanged. Without a username (absent or empty) the log is unchanged.
\<close>

theorem chat_appends_entry:
  assumes "msg \<noteq> []"
  shows "(name \<noteq> [] \<longrightarrow>
           (let reply = (case fst (getAI21Response fetch msg w) of
                           Inl e \<Rightarrow> degraded_reply | Inr s \<Rightarrow> s);
                entry = \<lparr>chat_username = name, chat_user = msg, chat_bot = reply,
                         chat_createdAt = now\<rparr>;
                result = chat fetch now
                           (Some (b(''message'' \<mapsto> msg, ''username'' \<mapsto> name))) w
            in if fst (storage_call w)
               then fst result = (500, reply_body chat_error_reply)
                    \<and> chats (snd result) = chats w
               else fst result = (200, reply_body reply)
                    \<and> chats (snd result) = chats w @ [entry]))
         \<and> (falsy (b ''username'') \<longrightarrow>
              chats (snd (chat fetch now (Some (b(''message'' \<mapsto> msg))) w)) = chats w)"
proof -
  obtain r w1 where g: "getAI21Response fetch msg w = (r, w1)"
    by (cases "getAI21Response fetch msg w")
  then have w1: "w1 = w\<lparr>outbox := outbox w @ [completion_request msg]\<rparr>"
    using getAI21Response_world [of fetch msg w] by simp
  let ?body = "Some (b(''message'' \<mapsto> msg, ''username'' \<mapsto> name))"
  have a: "falsy (b ''username'') \<longrightarrow>
             chats (snd (chat fetch now (Some (b(''message'' \<mapsto> msg))) w)) = chats w"
    using assms g by (auto simp: chat_def falsy_def w1 split: option.splits)
  have b: "name \<noteq> [] \<Longrightarrow> fst (storage_call w) \<Longrightarrow>
      fst (chat fetch now ?body w) = (500, reply_body chat_error_reply)
      \<and> chats (snd (chat fetch now ?body w)) = chats w"
    using assms g by (simp add: chat_def w1 Chat_save_eq)
  have c: "name \<noteq> [] \<Longrightarrow> \<not> fst (storage_call w) \<Longrightarrow>
      fst (chat fetch now ?body w) =
        (200, reply_body (case r of Inl e \<Rightarrow> degraded_reply | Inr s \<Rightarrow> s))
      \<and> chats (snd (chat fetch now ?body w)) =
          chats w @ [\<lparr>chat_username = name, chat_user = msg,
                      chat_bot = (case r of Inl e \<Rightarrow> degraded_reply | Inr s \<Rightarrow> s),
                      chat_createdAt = now\<rparr>]"
    using assms g by (simp add: chat_def w1 Chat_save_eq Let_def)
  show ?thesis using a b c g by (simp add: Let_def)
qed

theorem chat_appends_entry_witness:
  "str ''hi'' \<noteq> [] \<and> str ''ab'' \<noteq> [] \<and> falsy (Map.empty ''username'')
   \<and> fst (chat (\<lambda>_. Responded 200 (Some (JObj [(str ''choices'',
              JArr [JObj [(str ''message'', JObj [(str ''content'', JStr (str '' yo ''))])]])])))
            7 (Some [''message'' \<mapsto> str ''hi'', ''username'' \<mapsto> str ''ab'']) (empty_store []))
       = (200, reply_body (str ''yo''))
   \<and> chats (snd (chat (\<lambda>_. Responded 200 (Some (JObj [(str ''choices'',
              JArr [JObj [(str ''message'', JObj [(str ''content'', JStr (str '' yo ''))])]])])))
            7 (Some [''message'' \<mapsto> str ''hi'', ''username'' \<mapsto> str ''ab'']) (empty_store [])))
       = [\<lparr>chat_username = str ''ab'', chat_user = str ''hi'', chat_bot = str ''yo'',
           chat_createdAt = 7\<rparr>]
   \<and> fst (chat (\<lambda>_. Rejected) 7 (Some [''message'' \<mapsto> str ''hi'', ''username'' \<mapsto> str ''ab''])
            (empty_store [True]))
       = (500, reply_body chat_error_reply)
   \<and> chats (snd (chat (\<lambda>_. Rejected) 7
                   (Some [''message'' \<mapsto> str ''hi'', ''username'' \<mapsto> str ''ab''])
                   (empty_store [True]))) = []
   \<and> chats (snd (chat (\<lambda>_. Rejected) 7 (Some [''message'' \<mapsto> str ''hi''])
                   (empty_store []))) = []"
proof -
  have a: "str ''hi'' \<noteq> []" by (simp add: str_def)
  show ?thesis
    using chat_appends_entry [OF a, where name = "str ''ab''" and now = 7 and b = Map.empty
        and w = "empty_store []"
        and fetch = "\<lambda>_. Responded 200 (Some (JObj [(str ''choices'',
              JArr [JObj [(str ''message'', JObj [(str ''content'', JStr (str '' yo ''))])]])]))"]
      chat_appends_entry [OF a, where name = "str ''ab''" and now = 7 and b = Map.empty
        and w = "empty_store [True]" and fetch = "\<lambda>_. Rejected"]
      chat_appends_entry [OF a, where name = "str ''ab''" and now = 7 and b = Map.empty
        and w = "empty_store []" and fetch = "\<lambda>_. Rejected"]
    by (simp add: getAI21Response_def storage_call_def empty_store_def
        reply_content_def opt_prop_def opt_first_def opt_trim_def trim_def is_space_def ok_def
        falsy_def str_def Let_def)
qed

section \<open>The completion client\<close>

text \<open>
  C9. When the provider answers the request for a message with a status and a body:
  with a 2xx status and a JSON body whose \<^verbatim>\<open>choices[0].message.content\<close> is a string
  that trims to a non-empty string, the client returns the trimmed string; with a 2xx
  status and a JSON body whose content is absent, null or a string that trims to the empty
  string, it fails with \<open>EmptyReply\<close>; with any other status it fails with
  \<open>ProviderError\<close> carrying the status.
\<close>

theorem getAI21Response_cases:
  assumes "fetch (completion_request msg) = Responded st body"
  shows "(ok st \<and> body = Some json \<and> reply_content json = Some (JStr s) \<and> trim s \<noteq> []
            \<longrightarrow> fst (getAI21Response fetch msg w) = Inr (trim s))
       \<and> (ok st \<and> body = Some json
            \<and> (reply_content json = None \<or> reply_content json = Some JNull
               \<or> (reply_content json = Some (JStr s) \<and> trim s = []))
            \<longrightarrow> fst (getAI21Response fetch msg w) = Inl EmptyReply)
       \<and> (\<not> ok st \<longrightarrow> fst (getAI21Response fetch msg w) = Inl (ProviderError st))"
  using assms
  by (auto simp: getAI21Response_def opt_trim_def Let_def)

theorem getAI21Response_cases_witness:
  "fst (getAI21Response (\<lambda>_. Responded 200 (Some (JObj [(str ''choices'',
          JArr [JObj [(str ''message'', JObj [(str ''content'', JStr (str '' yo ''))])]])])))
        (str ''hi'') (empty_store [])) = Inr (str ''yo'')
   \<and> fst (getAI21Response (\<lambda>_. Responded 200 (Some (JObj [(str ''choices'', JArr [])])))
        (str ''hi'') (empty_store [])) = Inl EmptyReply
   \<and> fst (getAI21Response (\<lambda>_. Responded 200 (Some (JObj [(str ''choices'',
          JArr [JObj [(str ''message'', JObj [(str ''content'', JStr (str ''  ''))])]])])))
        (str ''hi'') (empty_store [])) = Inl EmptyReply
   \<and> fst (getAI21Response (\<lambda>_. Responded 429 None) (str ''hi'') (empty_store []))
       = Inl (ProviderError 429)"
  using
    getAI21Response_cases [where msg = "str ''hi''" and st = 200 and w = "empty_store []"
      and s = "str '' yo ''"
      and json = "JObj [(str ''choices'',
          JArr [JObj [(str ''message'', JObj [(str ''content'', JStr (str '' yo ''))])]])]"
      and body = "Some (JObj [(str ''choices'',
          JArr [JObj [(str ''message'', JObj [(str ''content'', JStr (str '' yo ''))])]])])"
      and fetch = "\<lambda>_. Responded 200 (Some (JObj [(str ''choices'',
          JArr [JObj [(str ''message'', JObj [(str ''content'', JStr (str '' yo ''))])]])]))"]
    getAI21Response_cases [where msg = "str ''hi''" and st = 200 and w = "empty_store []"
      and s = "[]"
      and json = "JObj [(str ''choices'', JArr [])]"
      and body = "Some (JObj [(str ''choices'', JArr [])])"
      and fetch = "\<lambda>_. Responded 200 (Some (JObj [(str ''choices'', JArr [])]))"]
    getAI21Response_cases [where msg = "str ''hi''" and st = 200 and w = "empty_store []"
      and s = "str ''  ''"
      and json = "JObj [(str ''choices'',
          JArr [JObj [(str ''message'', JObj [(str ''content'', JStr (str ''  ''))])]])]"
      and body = "Some (JObj [(str ''choices'',
          JArr [JObj [(str ''message'', JObj [(str ''content'', JStr (str ''  ''))])]])])"
      and fetch = "\<lambda>_. Responded 200 (Some (JObj [(str ''choices'',
          JArr [JObj [(str ''message'', JObj [(str ''content'', JStr (str ''  ''))])]])]))"]
    getAI21Response_cases [where msg = "str ''hi''" and st = 429 and w = "empty_store []"
      and body = None and fetch = "\<lambda>_. Responded 429 None"]
  by (simp add: reply_content_def opt_prop_def opt_first_def trim_def is_space_def ok_def
      str_def)

section \<open>Register\<close>

lemma run_Cons_snd: "snd (run (c # cs) w) = snd (run cs (snd (serve c w)))"
  by (simp add: split_beta)

lemma run_distinct_usernames:
  "distinct (map username (users w)) \<Longrightarrow> distinct (map username (users (snd (run cs w))))"
proof (induction cs arbitrary: w)
  case Nil
  then show ?case by simp
next
  case (Cons c cs)
  have "distinct (map username (users (snd (serve c w))))"
    using serve_users [of c w] Cons.prems by (fastforce simp: list_ex_iff)
  from Cons.IH [OF this] show ?case by (simp only: run_Cons_snd)
qed

lemma run_email_absent:
  "\<forall>d \<in> set (users w). email d = None \<Longrightarrow>
   \<forall>d \<in> set (users (snd (run cs w))). email d = None"
proof (induction cs arbitrary: w)
  case Nil
  then show ?case by simp
next
  case (Cons c cs)
  have "\<forall>d \<in> set (users (snd (serve c w))). email d = None"
    using serve_users [of c w] Cons.prems by auto
  from Cons.IH [OF this] show ?case by (simp only: run_Cons_snd)
qed

lemma run_keeps_users: "set (users w) \<subseteq> set (users (snd (run cs w)))"
proof (induction cs arbitrary: w)
  case Nil
  then show ?case by simp
next
  case (Cons c cs)
  have "set (users w) \<subseteq> set (users (snd (serve c w)))"
    using serve_users [of c w] by auto
  with Cons.IH [of "snd (serve c w)"] show ?case by (simp only: run_Cons_snd)
qed

lemma register_fresh:
  assumes "find (\<lambda>d. username d = u) (users w) = None"
    and "f \<noteq> []" and "u \<noteq> []" and "p \<noteq> []" and "hash p \<noteq> []"
    and "True \<notin> set (take 2 (faults w))"
  shows "fst (register hash
                (Some (b(''fullName'' \<mapsto> f, ''username'' \<mapsto> u, ''password'' \<mapsto> p))) w)
           = (200, outcome True ''Registration successful'')
         \<and> users (snd (register hash
                (Some (b(''fullName'' \<mapsto> f, ''username'' \<mapsto> u, ''password'' \<mapsto> p))) w))
           = users w @ [\<lparr>fullName = f, username = u, email = None, password = hash p\<rparr>]"
proof -
  have nf1: "\<not> fst (storage_call w)"
    using assms(6) by (cases "faults w") (auto simp: storage_call_fault)
  have nf2: "\<not> fst (storage_call (snd (storage_call w)))"
    using assms(6) by (cases "faults w"; cases "tl (faults w)") (auto simp: storage_call_fault)
  have nex: "\<not> list_ex (\<lambda>d. username d = u) (users w)"
    using assms(1) by (auto simp: find_None_iff list_ex_iff)
  show ?thesis using assms(1-5) nf1 nf2 nex
    by (simp add: register_def User_findOne_eq User_save_eq Let_def email_taken_def)
qed

lemma register_existing:
  assumes "u \<in> username ` set (users w)"
    and "f \<noteq> []" and "u \<noteq> []" and "p \<noteq> []"
    and "\<not> fst (storage_call w)"
  shows "fst (register hash
                (Some (b(''fullName'' \<mapsto> f, ''username'' \<mapsto> u, ''password'' \<mapsto> p))) w)
           = (400, outcome False ''User already exists'')
         \<and> users (snd (register hash
                (Some (b(''fullName'' \<mapsto> f, ''username'' \<mapsto> u, ''password'' \<mapsto> p))) w))
           = users w"
proof -
  from assms(1) obtain d where "find (\<lambda>d. username d = u) (users w) = Some d"
    by (cases "find (\<lambda>d. username d = u) (users w)") (auto simp: find_None_iff)
  then show ?thesis using assms(2-5)
    by (simp add: register_def User_findOne_eq)
qed

text \<open>
  C3, as stated, fails in four ways: when the initial store already holds the username,
  the first call is refused as a duplicate; a call with an empty username, and a second
  call with an empty password, are refused for the missing field before the lookup, not
  as a duplicate; and when the store throws, the call ends in the 500.
\<close>

theorem register_twice_counterexample:
  "fst (register (\<lambda>p. str ''$2b$10$'' @ p)
          (Some [''fullName'' \<mapsto> str ''A B'', ''username'' \<mapsto> str ''ab'',
                 ''password'' \<mapsto> str ''pw1''])
          \<lparr>users = [\<lparr>fullName = str ''A B'', username = str ''ab'', email = None,
                     password = str ''x''\<rparr>], chats = [], faults = [], outbox = []\<rparr>)
     = (400, outcome False ''User already exists'')
   \<and> fst (register (\<lambda>p. str ''$2b$10$'' @ p)
          (Some [''fullName'' \<mapsto> str ''A B'', ''username'' \<mapsto> [],
                 ''password'' \<mapsto> str ''pw1'']) (empty_store []))
     = (400, outcome False ''All fields required'')
   \<and> fst (register (\<lambda>p. str ''$2b$10$'' @ p)
          (Some [''fullName'' \<mapsto> str ''A B'', ''username'' \<mapsto> str ''ab'', ''password'' \<mapsto> []])
          (snd (register (\<lambda>p. str ''$2b$10$'' @ p)
                  (Some [''fullName'' \<mapsto> str ''A B'', ''username'' \<mapsto> str ''ab'',
                         ''password'' \<mapsto> str ''pw1'']) (empty_store []))))
     = (400, outcome False ''All fields required'')
   \<and> fst (register (\<lambda>p. str ''$2b$10$'' @ p)
          (Some [''fullName'' \<mapsto> str ''A B'', ''username'' \<mapsto> str ''ab'',
                 ''password'' \<mapsto> str ''pw1'']) (empty_store [True]))
     = (500, outcome False ''Registration failed'')
   \<and> outcome False ''User already exists'' \<noteq> outcome True ''Registration successful''
   \<and> outcome False ''All fields required'' \<noteq> outcome True ''Registration successful''
   \<and> outcome False ''All fields required'' \<noteq> outcome False ''User already exists''"
  by (simp add: register_def User_findOne_def User_save_def storage_call_def
      empty_store_def email_taken_def outcome_def str_def)

text \<open>
  C3, amended. From a store that holds no user with the username, for two register
  calls with that username in which the username and the full name and password of both
  calls are non-empty, the digest of the first password is non-empty, and neither the two
  storage operations of the first call nor the lookup of the second fail: the first
  register succeeds, and the second, after any sequence of other requests, is answered
  with the 400 \<^verbatim>\<open>{success: false, message: "User already exists"}\<close> and adds nothing.
  Moreover, from a store in which no two users share a username, no sequence of requests
  leads to a store in which two do.
\<close>

theorem register_twice:
  assumes "find (\<lambda>d. username d = u) (users w) = None"
    and "f1 \<noteq> []" and "u \<noteq> []" and "p1 \<noteq> []" and "f2 \<noteq> []" and "p2 \<noteq> []"
    and "hash1 p1 \<noteq> []"
    and "True \<notin> set (take 2 (faults w))"
    and "register hash1
           (Some (b1(''fullName'' \<mapsto> f1, ''username'' \<mapsto> u, ''password'' \<mapsto> p1))) w
         = (r1, w1)"
    and "run between w1 = (rs, w2)"
    and "\<not> fst (storage_call w2)"
    and "register hash2
           (Some (b2(''fullName'' \<mapsto> f2, ''username'' \<mapsto> u, ''password'' \<mapsto> p2))) w2
         = (r2, w3)"
  shows "r1 = (200, outcome True ''Registration successful'')
         \<and> r2 = (400, outcome False ''User already exists'')
         \<and> users w3 = users w2
         \<and> (distinct (map username (users w0))
              \<longrightarrow> distinct (map username (users (snd (run cs w0)))))"
proof -
  have first: "r1 = (200, outcome True ''Registration successful'')"
    and us1: "users w1 = users w @ [\<lparr>fullName = f1, username = u, email = None,
                                      password = hash1 p1\<rparr>]"
    using register_fresh [where hash = hash1 and p = p1 and b = b1, OF assms(1,2,3,4,7,8)]
      assms(9)
    by simp_all
  have "u \<in> username ` set (users w1)" by (simp add: us1)
  moreover have "set (users w1) \<subseteq> set (users w2)"
    using run_keeps_users [of w1 between] assms(10) by simp
  ultimately have "u \<in> username ` set (users w2)" by blast
  from register_existing [where hash = hash2 and b = b2, OF this assms(5,3,6,11)] assms(12)
  have second: "r2 = (400, outcome False ''User already exists'')" and us3: "users w3 = users w2"
    by simp_all
  from first second us3 run_distinct_usernames [of w0 cs] show ?thesis by simp
qed

theorem register_twice_witness:
  "find (\<lambda>d. username d = str ''ab'') (users (empty_store [])) = None
   \<and> True \<notin> set (take 2 (faults (empty_store [])))
   \<and> fst (register (\<lambda>p. str ''$2b$10$'' @ p)
            (Some [''fullName'' \<mapsto> str ''A B'', ''username'' \<mapsto> str ''ab'',
                   ''password'' \<mapsto> str ''pw1'']) (empty_store []))
       = (200, outcome True ''Registration successful'')
   \<and> fst (register (\<lambda>p. str ''$2b$10$'' @ p)
            (Some [''fullName'' \<mapsto> str ''X Y'', ''username'' \<mapsto> str ''ab'',
                   ''password'' \<mapsto> str ''pw2''])
            (snd (run [History (Some (str ''ab''))]
               (snd (register (\<lambda>p. str ''$2b$10$'' @ p)
                       (Some [''fullName'' \<mapsto> str ''A B'', ''username'' \<mapsto> str ''ab'',
                              ''password'' \<mapsto> str ''pw1'']) (empty_store []))))))
       = (400, outcome False ''User already exists'')
   \<and> distinct (map username (users (snd (run
         [Register (\<lambda>p. str ''$2b$10$'' @ p)
            (Some [''fullName'' \<mapsto> str ''A B'', ''username'' \<mapsto> str ''ab'',
                   ''password'' \<mapsto> str ''pw1'']),
          Register (\<lambda>p. str ''$2b$10$'' @ p)
            (Some [''fullName'' \<mapsto> str ''X Y'', ''username'' \<mapsto> str ''ab'',
                   ''password'' \<mapsto> str ''pw2''])] (empty_store [])))))"
proof -
  let ?h = "\<lambda>p. str ''$2b$10$'' @ p"
  let ?w = "empty_store []"
  let ?b1 = "[''fullName'' \<mapsto> str ''A B'', ''username'' \<mapsto> str ''ab'',
              ''password'' \<mapsto> str ''pw1'']"
  let ?b2 = "[''fullName'' \<mapsto> str ''X Y'', ''username'' \<mapsto> str ''ab'',
              ''password'' \<mapsto> str ''pw2'']"
  let ?first = "register ?h (Some ?b1) ?w"
  let ?mid = "run [History (Some (str ''ab''))] (snd ?first)"
  let ?second = "register ?h (Some ?b2) (snd ?mid)"
  have a1: "find (\<lambda>d. username d = str ''ab'') (users ?w) = None"
    by (simp add: empty_store_def)
  have a2: "str ''A B'' \<noteq> []" and a3: "str ''ab'' \<noteq> []" and a4: "str ''pw1'' \<noteq> []"
    and a5: "str ''X Y'' \<noteq> []" and a6: "str ''pw2'' \<noteq> []"
    and a7: "?h (str ''pw1'') \<noteq> []"
    by (simp_all add: str_def)
  have a8: "True \<notin> set (take 2 (faults ?w))" by (simp add: empty_store_def)
  have a9: "?first = (fst ?first, snd ?first)" by simp
  have a10: "?mid = (fst ?mid, snd ?mid)" by simp
  have a11: "\<not> fst (storage_call (snd ?mid))"
    by (simp add: register_def User_findOne_def User_save_def storage_call_def
        empty_store_def email_taken_def history_def Chat_find_sorted_def str_def)
  have a12: "?second = (fst ?second, snd ?second)" by simp
  have d: "distinct (map username (users ?w))" by (simp add: empty_store_def)
  show ?thesis
    using a1 a8 d
      register_twice [where ?hash1.0 = ?h and ?hash2.0 = ?h and ?p1.0 = "str ''pw1''"
        and ?b1.0 = Map.empty and ?b2.0 = Map.empty and ?w0.0 = ?w
        and cs = "[Register ?h (Some ?b1), Register ?h (Some ?b2)]",
        OF a1 a2 a3 a4 a5 a6 a7 a8 a9 a10 a11 a12]
    by simp
qed



lemma find_username_email_update:
  "find (\<lambda>d. username d = u) (map (\<lambda>d. d\<lparr>email := e d\<rparr>) ds)
     = map_option (\<lambda>d. d\<lparr>email := e d\<rparr>) (find (\<lambda>d. username d = u) ds)"
  by (induction ds) auto

lemma list_ex_username_email_update:
  "list_ex (\<lambda>d. username d = u) (map (\<lambda>d. d\<lparr>email := e d\<rparr>) ds)
     = list_ex (\<lambda>d. username d = u) ds"
  by (induction ds) auto

lemma storage_call_users_update:
  "fst (storage_call (w\<lparr>users := us\<rparr>)) = fst (storage_call w)"
  by (simp add: storage_call_def split: list.splits)

lemma storage_call_users_update_snd:
  "snd (storage_call (w\<lparr>users := us\<rparr>)) = (snd (storage_call w))\<lparr>users := us\<rparr>"
  by (simp add: storage_call_def split: list.splits)

text \<open>
  C10. The user that a successful registration adds has the supplied full name and
  username, the digest as password, and no email; in every store reached from the empty
  one no user has an email; the response of register is the same whatever emails the
  users of the store carry, and saving a document without email is never refused by the
  email index.
\<close>

theorem register_email_absent:
  "(fst (fst (register hash body w)) = 200 \<longrightarrow>
      (\<exists>b f' u' p'. body = Some b \<and> b ''fullName'' = Some f' \<and> b ''username'' = Some u'
         \<and> b ''password'' = Some p'
         \<and> users (snd (register hash body w))
             = users w @ [\<lparr>fullName = f', username = u', email = None, password = hash p'\<rparr>]))
   \<and> (\<forall>d \<in> set (users (snd (run cs (empty_store fs)))). email d = None)
   \<and> fst (register hash body (w\<lparr>users := map (\<lambda>d. d\<lparr>email := e d\<rparr>) (users w)\<rparr>))
       = fst (register hash body w)
   \<and> (email doc = None \<longrightarrow> fst (User_save doc w) \<noteq> Inl (DuplicateKey (str ''email'')))"
proof -
  have a: "fst (fst (register hash body w)) = 200 \<longrightarrow>
      (\<exists>b f' u' p'. body = Some b \<and> b ''fullName'' = Some f' \<and> b ''username'' = Some u'
         \<and> b ''password'' = Some p'
         \<and> users (snd (register hash body w))
             = users w @ [\<lparr>fullName = f', username = u', email = None, password = hash p'\<rparr>])"
    by (auto simp: register_def User_findOne_eq User_save_eq Let_def
        split: option.splits if_splits)
  have b: "\<forall>d \<in> set (users (snd (run cs (empty_store fs)))). email d = None"
    by (rule run_email_absent) (simp add: empty_store_def)
  have c: "fst (register hash body (w\<lparr>users := map (\<lambda>d. d\<lparr>email := e d\<rparr>) (users w)\<rparr>))
       = fst (register hash body w)"
    by (auto simp: register_def User_findOne_eq User_save_eq Let_def email_taken_def
        find_username_email_update list_ex_username_email_update
        storage_call_users_update storage_call_users_update_snd
        split: option.splits)
  have d: "email doc = None \<longrightarrow> fst (User_save doc w) \<noteq> Inl (DuplicateKey (str ''email''))"
    by (simp add: User_save_eq email_taken_def str_def)
  from a b c d show ?thesis by blast
qed

theorem register_email_absent_witness:
  "fst (fst (register (\<lambda>p. str ''$2b$10$'' @ p) (Some [''fullName'' \<mapsto> str ''A B'', ''username'' \<mapsto> str ''ab'',
                     ''password'' \<mapsto> str ''pw1''])
              \<lparr>users = [\<lparr>fullName = str ''C D'', username = str ''cd'', email = None,
                         password = str ''x''\<rparr>], chats = [], faults = [], outbox = []\<rparr>)) = 200
   \<and> users (snd (register (\<lambda>p. str ''$2b$10$'' @ p) (Some [''fullName'' \<mapsto> str ''A B'', ''username'' \<mapsto> str ''ab'',
                     ''password'' \<mapsto> str ''pw1''])
              \<lparr>users = [\<lparr>fullName = str ''C D'', username = str ''cd'', email = None,
                         password = str ''x''\<rparr>], chats = [], faults = [], outbox = []\<rparr>))
       = [\<lparr>fullName = str ''C D'', username = str ''cd'', email = None, password = str ''x''\<rparr>,
          \<lparr>fullName = str ''A B'', username = str ''ab'', email = None,
           password = str ''$2b$10$pw1''\<rparr>]
   \<and> map email (users (snd (run
          [Register (\<lambda>p. str ''$2b$10$'' @ p) (Some [''fullName'' \<mapsto> str ''A B'', ''username'' \<mapsto> str ''ab'',
                    ''password'' \<mapsto> str ''pw1''])] (empty_store [])))) = [None]
   \<and> fst (register (\<lambda>p. str ''$2b$10$'' @ p) (Some [''fullName'' \<mapsto> str ''A B'', ''username'' \<mapsto> str ''ab'',
                     ''password'' \<mapsto> str ''pw1''])
              \<lparr>users = [\<lparr>fullName = str ''C D'', username = str ''cd'',
                         email = Some (str ''c@d''), password = str ''x''\<rparr>],
               chats = [], faults = [], outbox = []\<rparr>)
       = (200, outcome True ''Registration successful'')"
proof -
  have a: "fst (fst (register (\<lambda>p. str ''$2b$10$'' @ p) (Some [''fullName'' \<mapsto> str ''A B'', ''username'' \<mapsto> str ''ab'',
                     ''password'' \<mapsto> str ''pw1''])
              \<lparr>users = [\<lparr>fullName = str ''C D'', username = str ''cd'', email = None,
                         password = str ''x''\<rparr>], chats = [], faults = [], outbox = []\<rparr>)) = 200"
    by (simp add: register_def User_findOne_def User_save_def storage_call_def
        email_taken_def str_def)
  have b: "fst (register (\<lambda>p. str ''$2b$10$'' @ p) (Some [''fullName'' \<mapsto> str ''A B'', ''username'' \<mapsto> str ''ab'',
                     ''password'' \<mapsto> str ''pw1''])
              \<lparr>users = [\<lparr>fullName = str ''C D'', username = str ''cd'', email = None,
                         password = str ''x''\<rparr>], chats = [], faults = [], outbox = []\<rparr>)
           = (200, outcome True ''Registration successful'')"
    by (simp add: register_def User_findOne_def User_save_def storage_call_def
        email_taken_def str_def)
  have c: "map email (users (snd (run
          [Register (\<lambda>p. str ''$2b$10$'' @ p) (Some [''fullName'' \<mapsto> str ''A B'', ''username'' \<mapsto> str ''ab'',
                    ''password'' \<mapsto> str ''pw1''])] (empty_store [])))) = [None]"
    by (simp add: register_def User_findOne_def User_save_def storage_call_def
        email_taken_def str_def empty_store_def)
  show ?thesis
    using a b c register_email_absent [where hash = "\<lambda>p. str ''$2b$10$'' @ p"
        and body = "Some [''fullName'' \<mapsto> str ''A B'', ''username'' \<mapsto> str ''ab'',
                     ''password'' \<mapsto> str ''pw1'']"
        and w = "\<lparr>users = [\<lparr>fullName = str ''C D'', username = str ''cd'', email = None,
                         password = str ''x''\<rparr>], chats = [], faults = [], outbox = []\<rparr>"
        and cs = "[Register (\<lambda>p. str ''$2b$10$'' @ p) (Some [''fullName'' \<mapsto> str ''A B'',
                    ''username'' \<mapsto> str ''ab'', ''password'' \<mapsto> str ''pw1''])]"
        and fs = "[]" and e = "\<lambda>_. Some (str ''c@d'')"
        and doc = "\<lparr>fullName = str ''A B'', username = str ''ab'', email = None,
                    password = str ''$2b$10$pw1''\<rparr>"]
    by (simp add: str_def)
qed

section \<open>Login\<close>

text \<open>
  C5, as stated, fails when the lookup throws: the response is the 500 whether or not a
  user with the username exists.
\<close>

theorem login_outcomes_counterexample:
  "str ''ab'' \<noteq> [] \<and> str ''pw1'' \<noteq> []
   \<and> find (\<lambda>d. username d = str ''ab'') (users (empty_store [True])) = None
   \<and> fst (login (\<lambda>p s. s = str ''$'' @ p)
            (Some [''username'' \<mapsto> str ''ab'', ''password'' \<mapsto> str ''pw1''])
            (empty_store [True]))
       = (500, outcome False ''Login failed'')
   \<and> fst (login (\<lambda>p s. s = str ''$'' @ p)
            (Some [''username'' \<mapsto> str ''ab'', ''password'' \<mapsto> str ''pw1''])
            (empty_store [True]))
       \<noteq> (404, outcome False ''User not found'')"
  by (simp add: login_def User_findOne_def storage_call_def empty_store_def str_def)

text \<open>
  C5, amended. For a login request with non-empty username and password whose lookup
  does not fail: without a user of that username the response is the 404 "User not
  found"; with one whose stored password the supplied one does not verify against, the
  401 "Incorrect password"; with one it verifies against, the 200 carrying the username.
  When the lookup fails the response is the 500 "Login failed".
\<close>

theorem login_outcomes:
  assumes "u \<noteq> []" and "p \<noteq> []"
  shows "(\<not> fst (storage_call w) \<longrightarrow>
            fst (login compare (Some (b(''username'' \<mapsto> u, ''password'' \<mapsto> p))) w) =
              (case find (\<lambda>d. username d = u) (users w) of
                 None \<Rightarrow> (404, outcome False ''User not found'')
               | Some d \<Rightarrow>
                   if compare p (password d)
                   then (200, JObj [(str ''success'', JBool True),
                                    (str ''message'', JStr (str ''Login successful'')),
                                    (str ''username'', JStr u)])
                   else (401, outcome False ''Incorrect password'')))
         \<and> (fst (storage_call w) \<longrightarrow>
              fst (login compare (Some (b(''username'' \<mapsto> u, ''password'' \<mapsto> p))) w)
                = (500, outcome False ''Login failed''))"
proof -
  have "find (\<lambda>d. username d = u) (users w) = Some d \<Longrightarrow> username d = u" for d
    by (auto simp: find_Some_iff)
  then show ?thesis using assms
    by (auto simp: login_def User_findOne_eq split: option.splits)
qed

theorem login_outcomes_witness:
  "str ''ab'' \<noteq> [] \<and> str ''pw1'' \<noteq> [] \<and> str ''wrong'' \<noteq> []
   \<and> fst (login (\<lambda>p s. s = str ''$'' @ p)
            (Some [''username'' \<mapsto> str ''ab'', ''password'' \<mapsto> str ''pw1''])
            (empty_store []))
       = (404, outcome False ''User not found'')
   \<and> fst (login (\<lambda>p s. s = str ''$'' @ p)
            (Some [''username'' \<mapsto> str ''ab'', ''password'' \<mapsto> str ''wrong''])
            \<lparr>users = [\<lparr>fullName = str ''A B'', username = str ''ab'', email = None,
                       password = str ''$pw1''\<rparr>],
             chats = [], faults = [], outbox = []\<rparr>)
       = (401, outcome False ''Incorrect password'')
   \<and> fst (login (\<lambda>p s. s = str ''$'' @ p)
            (Some [''username'' \<mapsto> str ''ab'', ''password'' \<mapsto> str ''pw1''])
            \<lparr>users = [\<lparr>fullName = str ''A B'', username = str ''ab'', email = None,
                       password = str ''$pw1''\<rparr>],
             chats = [], faults = [], outbox = []\<rparr>)
       = (200, JObj [(str ''success'', JBool True),
                     (str ''message'', JStr (str ''Login successful'')),
                     (str ''username'', JStr (str ''ab''))])
   \<and> fst (login (\<lambda>p s. s = str ''$'' @ p)
            (Some [''username'' \<mapsto> str ''ab'', ''password'' \<mapsto> str ''pw1''])
            \<lparr>users = [\<lparr>fullName = str ''A B'', username = str ''ab'', email = None,
                       password = str ''$pw1''\<rparr>],
             chats = [], faults = [True], outbox = []\<rparr>)
       = (500, outcome False ''Login failed'')"
proof -
  have a: "str ''ab'' \<noteq> []" and b: "str ''pw1'' \<noteq> []" and c: "str ''wrong'' \<noteq> []"
    by (simp_all add: str_def)
  show ?thesis
    using a b c
      login_outcomes [OF a b, where b = Map.empty and w = "empty_store []" and compare = "\<lambda>p s. s = str ''$'' @ p"]
      login_outcomes [OF a c, where b = Map.empty and compare = "\<lambda>p s. s = str ''$'' @ p"
        and w = "\<lparr>users = [\<lparr>fullName = str ''A B'', username = str ''ab'', email = None,
                       password = str ''$pw1''\<rparr>],
             chats = [], faults = [], outbox = []\<rparr>"]
      login_outcomes [OF a b, where b = Map.empty and compare = "\<lambda>p s. s = str ''$'' @ p"
        and w = "\<lparr>users = [\<lparr>fullName = str ''A B'', username = str ''ab'', email = None,
                       password = str ''$pw1''\<rparr>],
             chats = [], faults = [], outbox = []\<rparr>"]
      login_outcomes [OF a b, where b = Map.empty and compare = "\<lambda>p s. s = str ''$'' @ p"
        and w = "\<lparr>users = [\<lparr>fullName = str ''A B'', username = str ''ab'', email = None,
                       password = str ''$pw1''\<rparr>],
             chats = [], faults = [True], outbox = []\<rparr>"]
    by (simp add: storage_call_def empty_store_def str_def)
qed

section \<open>History\<close>

text \<open>
  C7, as stated, fails when the query throws: the response is the 500 with an empty
  array although the user has entries.
\<close>

theorem history_sorted_counterexample:
  "str ''ab'' \<noteq> []
   \<and> filter (\<lambda>d. chat_username d = str ''ab'')
        (chats \<lparr>users = [],
                chats = [\<lparr>chat_username = str ''ab'', chat_user = str ''hi'',
                          chat_bot = str ''yo'', chat_createdAt = 7\<rparr>],
                faults = [True], outbox = []\<rparr>) \<noteq> []
   \<and> fst (history (Some (str ''ab''))
            \<lparr>users = [],
             chats = [\<lparr>chat_username = str ''ab'', chat_user = str ''hi'',
                       chat_bot = str ''yo'', chat_createdAt = 7\<rparr>],
             faults = [True], outbox = []\<rparr>) = (500, JArr [])"
  by (simp add: history_def Chat_find_sorted_def storage_call_def str_def)

text \<open>
  C7, amended. For a history request with a non-empty username whose query does not
  fail, the response is the 200 with exactly the entries of that username (as a
  multiset), in ascending order of \<^verbatim>\<open>createdAt\<close>, and so the empty array when there are
  none; when the query fails the response is the 500 with the empty array. A request
  without a username (absent or empty) gets the 200 with the empty array and leaves the
  world, the schedule of storage operations included, untouched.
\<close>

theorem history_sorted:
  "(u \<noteq> [] \<and> \<not> fst (storage_call w) \<longrightarrow>
      (\<exists>found. fst (history (Some u) w) = (200, JArr (map Chat_toJSON found))
         \<and> mset found = mset (filter (\<lambda>d. chat_username d = u) (chats w))
         \<and> sorted (map chat_createdAt found)))
   \<and> (u \<noteq> [] \<and> \<not> fst (storage_call w) \<and> filter (\<lambda>d. chat_username d = u) (chats w) = []
         \<longrightarrow> fst (history (Some u) w) = (200, JArr []))
   \<and> (u \<noteq> [] \<and> fst (storage_call w) \<longrightarrow> fst (history (Some u) w) = (500, JArr []))
   \<and> (falsy u' \<longrightarrow> history u' w = ((200, JArr []), w))"
  by (auto simp: history_def Chat_find_sorted_eq falsy_def split: option.splits)

theorem history_sorted_witness:
  "str ''ab'' \<noteq> [] \<and> falsy (Some [])
   \<and> (\<exists>found.
        fst (history (Some (str ''ab''))
          \<lparr>users = [],
           chats = [\<lparr>chat_username = str ''ab'', chat_user = str ''hi'',
                     chat_bot = str ''yo'', chat_createdAt = 7\<rparr>,
                    \<lparr>chat_username = str ''cd'', chat_user = str ''x'',
                     chat_bot = str ''y'', chat_createdAt = 5\<rparr>,
                    \<lparr>chat_username = str ''ab'', chat_user = str ''hi2'',
                     chat_bot = str ''yo2'', chat_createdAt = 3\<rparr>],
           faults = [], outbox = []\<rparr>) = (200, JArr (map Chat_toJSON found))
        \<and> mset found = {#\<lparr>chat_username = str ''ab'', chat_user = str ''hi'',
                             chat_bot = str ''yo'', chat_createdAt = 7\<rparr>,
                           \<lparr>chat_username = str ''ab'', chat_user = str ''hi2'',
                             chat_bot = str ''yo2'', chat_createdAt = 3\<rparr>#}
        \<and> sorted (map chat_createdAt found))
   \<and> fst (history (Some (str ''zz'')) (empty_store [])) = (200, JArr [])
   \<and> fst (history (Some (str ''ab'')) (empty_store [True])) = (500, JArr [])
   \<and> history (Some []) (empty_store [True]) = ((200, JArr []), empty_store [True])"
  using
    history_sorted [where u = "str ''ab''" and u' = "Some []" and w =
          "\<lparr>users = [],
           chats = [\<lparr>chat_username = str ''ab'', chat_user = str ''hi'',
                     chat_bot = str ''yo'', chat_createdAt = 7\<rparr>,
                    \<lparr>chat_username = str ''cd'', chat_user = str ''x'',
                     chat_bot = str ''y'', chat_createdAt = 5\<rparr>,
                    \<lparr>chat_username = str ''ab'', chat_user = str ''hi2'',
                     chat_bot = str ''yo2'', chat_createdAt = 3\<rparr>],
           faults = [], outbox = []\<rparr>"]
    history_sorted [where u = "str ''zz''" and u' = "Some []" and w = "empty_store []"]
    history_sorted [where u = "str ''ab''" and u' = "Some []" and w = "empty_store [True]"]
  by (simp add: storage_call_def empty_store_def falsy_def str_def)

text \<open>
  C8, as stated, fails on the names: the entries that history returns carry the fields
  \<^verbatim>\<open>user\<close> and \<^verbatim>\<open>bot\<close> of the schema, not \<^verbatim>\<open>userMessage\<close> and \<^verbatim>\<open>botReply\<close>.
\<close>

theorem history_entries_counterexample:
  "fst (history (Some (str ''ab''))
          (snd (run [Chat (\<lambda>_. Rejected) 7
                     (Some [''message'' \<mapsto> str ''hi'', ''username'' \<mapsto> str ''ab''])]
                  (empty_store []))))
     = (200, JArr [JObj [(str ''username'', JStr (str ''ab'')),
                         (str ''user'', JStr (str ''hi'')),
                         (str ''bot'', JStr degraded_reply),
                         (str ''createdAt'', JDate 7)]])
   \<and> [str ''username'', str ''user'', str ''bot'', str ''createdAt'']
       \<noteq> [str ''username'', str ''userMessage'', str ''botReply'', str ''createdAt'']
   \<and> str ''userMessage'' \<notin> set [str ''username'', str ''user'', str ''bot'', str ''createdAt'']
   \<and> str ''botReply'' \<notin> set [str ''username'', str ''user'', str ''bot'', str ''createdAt'']"
  by (simp add: history_def Chat_find_sorted_def chat_def getAI21Response_def Chat_save_def
      storage_call_def empty_store_def Chat_toJSON_def str_def)

lemma chat_new_entry:
  assumes "chat fetch now body w = (r, w1)" and "d \<in> set (chats w1)"
  shows "d \<in> set (chats w)
         \<or> ((\<exists>b. body = Some b \<and> b ''message'' = Some (chat_user d)
                 \<and> b ''username'' = Some (chat_username d))
            \<and> now = chat_createdAt d \<and> r = (200, reply_body (chat_bot d)))"
  using assms
  by (auto simp: chat_def Chat_save_eq split_beta Let_def getAI21Response_world
      split: option.splits if_splits)

lemma serve_new_entry:
  assumes "serve c w = (r, w1)" and "d \<in> set (chats w1)"
  shows "d \<in> set (chats w)
         \<or> ((\<exists>fetch b. c = Chat fetch (chat_createdAt d) (Some b)
                 \<and> b ''message'' = Some (chat_user d)
                 \<and> b ''username'' = Some (chat_username d))
            \<and> r = (200, reply_body (chat_bot d)))"
proof (cases c)
  case (Register hash body)
  with assms show ?thesis using register_chats [of hash body w] by auto
next
  case (Login compare body)
  with assms show ?thesis using login_chats [of compare body w] by auto
next
  case (Chat fetch now body)
  with assms show ?thesis using chat_new_entry [of fetch now body w r w1 d] by auto
next
  case (History u)
  with assms show ?thesis using history_chats [of u w] by auto
qed

lemma run_entries:
  assumes "run cs w = (rs, w')" and "d \<in> set (chats w')"
  shows "d \<in> set (chats w)
         \<or> (\<exists>i < length cs.
               (\<exists>fetch b. cs ! i = Chat fetch (chat_createdAt d) (Some b)
                  \<and> b ''message'' = Some (chat_user d)
                  \<and> b ''username'' = Some (chat_username d))
               \<and> rs ! i = (200, reply_body (chat_bot d)))"
  using assms
proof (induction cs arbitrary: w rs w')
  case Nil
  then show ?case by simp
next
  case (Cons c cs)
  obtain r w1 where s: "serve c w = (r, w1)" by (cases "serve c w")
  obtain rs' w2 where t: "run cs w1 = (rs', w2)" by (cases "run cs w1")
  from Cons.prems(1) s t have eq: "rs = r # rs'" "w' = w2" by simp_all
  from Cons.prems(2) eq have "d \<in> set (chats w2)" by simp
  from Cons.IH [OF t this]
  consider (old) "d \<in> set (chats w1)"
    | (later) i where "i < length cs"
        "\<exists>fetch b. cs ! i = Chat fetch (chat_createdAt d) (Some b)
                  \<and> b ''message'' = Some (chat_user d)
                  \<and> b ''username'' = Some (chat_username d)"
        "rs' ! i = (200, reply_body (chat_bot d))"
    by blast
  then show ?case
  proof cases
    case old
    from serve_new_entry [OF s old] show ?thesis
    proof
      assume "d \<in> set (chats w)"
      then show ?thesis ..
    next
      assume "(\<exists>fetch b. c = Chat fetch (chat_createdAt d) (Some b)
                 \<and> b ''message'' = Some (chat_user d)
                 \<and> b ''username'' = Some (chat_username d))
              \<and> r = (200, reply_body (chat_bot d))"
      then have "0 < length (c # cs) \<and>
          (\<exists>fetch b. (c # cs) ! 0 = Chat fetch (chat_createdAt d) (Some b)
                 \<and> b ''message'' = Some (chat_user d)
                 \<and> b ''username'' = Some (chat_username d))
          \<and> rs ! 0 = (200, reply_body (chat_bot d))"
        using eq by simp
      then show ?thesis by blast
    qed
  next
    case later
    then have "Suc i < length (c # cs) \<and>
          (\<exists>fetch b. (c # cs) ! Suc i = Chat fetch (chat_createdAt d) (Some b)
                 \<and> b ''message'' = Some (chat_user d)
                 \<and> b ''username'' = Some (chat_username d))
          \<and> rs ! Suc i = (200, reply_body (chat_bot d))"
      using eq by simp
    then show ?thesis by blast
  qed
qed

text \<open>
  C8, amended. In every run of the service from the empty store, every entry that
  history returns has the schema fields \<^verbatim>\<open>username\<close>, \<^verbatim>\<open>user\<close>, \<^verbatim>\<open>bot\<close> and
  \<^verbatim>\<open>createdAt\<close>, and there is a chat call of the run, made with the requested username,
  whose message is the \<^verbatim>\<open>user\<close> field and whose response was the 200 with the \<^verbatim>\<open>bot\<close>
  field as reply.
\<close>

theorem history_entries:
  assumes "run cs (empty_store fs) = (rs, w)"
    and "fst (history u w) = (st, JArr es)"
    and "e \<in> set es"
  shows "\<exists>(d::chat_doc) fetch b i.
           e = JObj [(str ''username'', JStr (chat_username d)),
                     (str ''user'', JStr (chat_user d)),
                     (str ''bot'', JStr (chat_bot d)),
                     (str ''createdAt'', JDate (chat_createdAt d))]
           \<and> u = Some (chat_username d)
           \<and> i < length cs
           \<and> cs ! i = Chat fetch (chat_createdAt d) (Some b)
           \<and> b ''message'' = Some (chat_user d)
           \<and> b ''username'' = u
           \<and> rs ! i = (200, reply_body (chat_bot d))"
proof -
  from assms(2,3) obtain d where d: "e = Chat_toJSON d" "d \<in> set (chats w)"
      "u = Some (chat_username d)"
    by (auto simp: history_def Chat_find_sorted_eq split: option.splits if_splits)
  from run_entries [OF assms(1) d(2)] obtain i fetch b where
    "i < length cs"
    "cs ! i = Chat fetch (chat_createdAt d) (Some b)"
    "b ''message'' = Some (chat_user d)"
    "b ''username'' = Some (chat_username d)"
    "rs ! i = (200, reply_body (chat_bot d))"
    by (auto simp: empty_store_def)
  with d have "e = JObj [(str ''username'', JStr (chat_username d)),
                     (str ''user'', JStr (chat_user d)),
                     (str ''bot'', JStr (chat_bot d)),
                     (str ''createdAt'', JDate (chat_createdAt d))]
           \<and> u = Some (chat_username d)
           \<and> i < length cs
           \<and> cs ! i = Chat fetch (chat_createdAt d) (Some b)
           \<and> b ''message'' = Some (chat_user d)
           \<and> b ''username'' = u
           \<and> rs ! i = (200, reply_body (chat_bot d))"
    by (simp add: Chat_toJSON_def)
  then show ?thesis by blast
qed

theorem history_entries_witness:
  "run [Chat (\<lambda>_. Rejected) 7 (Some [''message'' \<mapsto> str ''hi'', ''username'' \<mapsto> str ''ab''])]
     (empty_store [])
     = ([(200, reply_body degraded_reply)],
        \<lparr>users = [],
         chats = [\<lparr>chat_username = str ''ab'', chat_user = str ''hi'',
                   chat_bot = degraded_reply, chat_createdAt = 7\<rparr>],
         faults = [],
         outbox = [completion_request (str ''hi'')]\<rparr>)
   \<and> fst (history (Some (str ''ab''))
        \<lparr>users = [],
         chats = [\<lparr>chat_username = str ''ab'', chat_user = str ''hi'',
                   chat_bot = degraded_reply, chat_createdAt = 7\<rparr>],
         faults = [],
         outbox = [completion_request (str ''hi'')]\<rparr>)
     = (200, JArr [JObj [(str ''username'', JStr (str ''ab'')),
                         (str ''user'', JStr (str ''hi'')),
                         (str ''bot'', JStr degraded_reply),
                         (str ''createdAt'', JDate 7)]])
   \<and> (\<exists>(d::chat_doc) fetch b i.
      JObj [(str ''username'', JStr (str ''ab'')), (str ''user'', JStr (str ''hi'')),
            (str ''bot'', JStr degraded_reply), (str ''createdAt'', JDate 7)]
        = JObj [(str ''username'', JStr (chat_username d)),
                (str ''user'', JStr (chat_user d)),
                (str ''bot'', JStr (chat_bot d)),
                (str ''createdAt'', JDate (chat_createdAt d))]
      \<and> Some (str ''ab'') = Some (chat_username d)
      \<and> i < length [Chat (\<lambda>_. Rejected) 7
                       (Some [''message'' \<mapsto> str ''hi'', ''username'' \<mapsto> str ''ab''])]
      \<and> [Chat (\<lambda>_. Rejected) 7
            (Some [''message'' \<mapsto> str ''hi'', ''username'' \<mapsto> str ''ab''])] ! i
          = Chat fetch (chat_createdAt d) (Some b)
      \<and> b ''message'' = Some (chat_user d)
      \<and> b ''username'' = Some (str ''ab'')
      \<and> [(200::nat, reply_body degraded_reply)] ! i = (200, reply_body (chat_bot d)))"
proof -
  let ?cs = "[Chat (\<lambda>_. Rejected) 7
                (Some [''message'' \<mapsto> str ''hi'', ''username'' \<mapsto> str ''ab''])]"
  let ?e = "JObj [(str ''username'', JStr (str ''ab'')), (str ''user'', JStr (str ''hi'')),
                  (str ''bot'', JStr degraded_reply), (str ''createdAt'', JDate 7)]"
  let ?w = "\<lparr>users = [],
            chats = [\<lparr>chat_username = str ''ab'', chat_user = str ''hi'',
                      chat_bot = degraded_reply, chat_createdAt = 7\<rparr>],
            faults = [],
            outbox = [completion_request (str ''hi'')]\<rparr>"
  have a: "run ?cs (empty_store []) = ([(200, reply_body degraded_reply)], ?w)"
    by (simp add: chat_def getAI21Response_def Chat_save_def storage_call_def
        empty_store_def completion_request_def str_def)
  have b: "fst (history (Some (str ''ab'')) ?w) = (200, JArr [?e])"
    by (simp add: history_def Chat_find_sorted_def storage_call_def Chat_toJSON_def str_def)
  have c: "?e \<in> set [?e]" by simp
  from a b history_entries [OF a b c] show ?thesis by (intro conjI)
qed

end
